theory Spec2Isabelle
  imports Complex_Main
begin

section \<open>The transport facade (dxFeed C API)\<close>

text \<open>
  The program is a single translation unit, \<^verbatim>\<open>main.cpp\<close>, written against the dxFeed C
  API. The API's headers (\<^verbatim>\<open>DXFeed.h\<close>, \<^verbatim>\<open>DXErrorCodes.h\<close>) are an external library and are
  not part of the source, so every call into it is an event of the run, answered by a
  transport that is a parameter of the model.
\<close>

datatype ERRORCODE = DXF_SUCCESS | DXF_FAILURE
  \<comment> \<open>Modelled from the spec: the type \<^verbatim>\<open>ERRORCODE\<close> and its two constants are declared
      in \<^verbatim>\<open>DXFeed.h\<close>, which is missing; section 6 gives the result of every facade
      call as ok|failure.\<close>

definition dx_ec_success :: int where
  \<comment> \<open>Modelled from the spec: the error code that stands for "no stored error"
      (section 4.5), declared in the missing \<^verbatim>\<open>DXErrorCodes.h\<close>. Only equality with it
      is ever tested.\<close>
  "dx_ec_success = 0"

definition DXF_ET_QUOTE :: int where
  \<comment> \<open>Modelled from the spec: the event kind of quotes, a bit mask declared in the
      missing \<^verbatim>\<open>EventData.h\<close>. Only equality with it is ever tested.\<close>
  "DXF_ET_QUOTE = 2"

text \<open>Pointers are \<open>nat option\<close>: \<open>None\<close> is \<^verbatim>\<open>nullptr\<close>.\<close>

type_synonym dxf_connection_t = "nat option"
type_synonym dxf_subscription_t = "nat option"
type_synonym dxf_const_string_t = string

text \<open>
  \<^verbatim>\<open>getListener()\<close> is a static member of the template \<^verbatim>\<open>Subscription<id>\<close>; its
  function-local static holds the function pointer the captureless lambda converts to.
  There is one such lambda per instantiation, so the pointer is named by the template
  argument.
\<close>

datatype ListenerPtrType = Listener nat

datatype call =
    InitializeLogger
  | LoadConfig
  | CreateConnection
  | CloseConnection dxf_connection_t
  | CreateSubscription dxf_connection_t int
  | AttachEventListener dxf_subscription_t ListenerPtrType nat
  | AddSymbol dxf_subscription_t dxf_const_string_t
  | RemoveSymbol dxf_subscription_t dxf_const_string_t
  | DetachEventListener dxf_subscription_t ListenerPtrType
  | CloseSubscription dxf_subscription_t
  | GetLastError

text \<open>
  What a facade call gives back: its return value and the values it leaves in its
  out-parameters (\<open>ptr_out\<close> for the handle or connection that
  \<^verbatim>\<open>dxf_create_subscription\<close> and \<^verbatim>\<open>dxf_create_connection\<close> store; \<open>code_out\<close> and
  \<open>descr_out\<close> for \<^verbatim>\<open>dxf_get_last_error\<close>, \<open>None\<close> when the variable is not written).
\<close>

record reply =
  res :: ERRORCODE
  ptr_out :: "nat option"
  code_out :: "int option"
  descr_out :: "string option"

text \<open>The transport answers a call knowing the calls made before it.\<close>

type_synonym transport = "call list \<Rightarrow> call \<Rightarrow> reply"

section \<open>The observable run\<close>

datatype mutex_name = ioMutex | SubMutex nat

datatype arg =
    N nat
  | I int
  | P "nat option"
  | L ListenerPtrType
  | S string
  | W "string option"
  | C char
  | D real
  | Time int
  | Endl

datatype printed =
    Print string "arg list"
  | Wcout "arg list"
  | Badbit

datatype event =
    Call call
  | Acquire mutex_name
  | Release mutex_name
  | Out printed

type_synonym world = "event list"

primrec calls_of :: "event list \<Rightarrow> call list" where
  "calls_of [] = []"
| "calls_of (e # es) = (case e of Call c \<Rightarrow> c # calls_of es | _ \<Rightarrow> calls_of es)"

primrec acquired :: "event list \<Rightarrow> mutex_name list" where
  "acquired [] = []"
| "acquired (e # es) = (case e of Acquire m \<Rightarrow> m # acquired es | _ \<Rightarrow> acquired es)"

definition facade :: "transport \<Rightarrow> call \<Rightarrow> world \<Rightarrow> reply \<times> world" where
  "facade T c w = (T (calls_of w) c, w @ [Call c])"

text \<open>
  One statement that inserts a sequence of items into \<^verbatim>\<open>std::wcout\<close>. The source never
  tests a string pointer before inserting it. Inserting a null pointer prints nothing
  and puts the stream into its failed state (the event \<open>Badbit\<close>); the items after it
  in the statement are not printed, and since the source never clears the stream,
  neither is anything inserted into it later in the run. \<^verbatim>\<open>fmt::print\<close> writes to the C
  stream and is not affected.
\<close>

definition wcout_failed :: "world \<Rightarrow> bool" where
  "wcout_failed w \<longleftrightarrow> Out Badbit \<in> set w"

definition wcout_events :: "bool \<Rightarrow> arg list \<Rightarrow> event list" where
  "wcout_events failed items =
     (if failed then []
      else if W None \<in> set items
      then [Out (Wcout (takeWhile (\<lambda>x. x \<noteq> W None) items)), Out Badbit]
      else [Out (Wcout items)])"

definition wcout :: "arg list \<Rightarrow> world \<Rightarrow> world" where
  "wcout items w = w @ wcout_events (wcout_failed w) items"

section \<open>Display helpers\<close>

text \<open>
  The two enumerations come from the missing \<^verbatim>\<open>EventData.h\<close>. A C enumeration can hold
  any value of its underlying integer type, so the helpers take an integer.
\<close>

definition dxf_osc_composite :: int where
  \<comment> \<open>Modelled from the spec: enumerator of the order scope enumeration (section 3),
      declared in the missing \<^verbatim>\<open>EventData.h\<close>.\<close>
  "dxf_osc_composite = 0"

definition dxf_osc_regional :: int where
  \<comment> \<open>Modelled from the spec: enumerator of the order scope enumeration.\<close>
  "dxf_osc_regional = 1"

definition dxf_osc_aggregate :: int where
  \<comment> \<open>Modelled from the spec: enumerator of the order scope enumeration.\<close>
  "dxf_osc_aggregate = 2"

definition dxf_osc_order :: int where
  \<comment> \<open>Modelled from the spec: enumerator of the order scope enumeration.\<close>
  "dxf_osc_order = 3"

definition dxf_osd_undefined :: int where
  \<comment> \<open>Modelled from the spec: enumerator of the order side enumeration (section 3),
      declared in the missing \<^verbatim>\<open>EventData.h\<close>.\<close>
  "dxf_osd_undefined = 0"

definition dxf_osd_buy :: int where
  \<comment> \<open>Modelled from the spec: enumerator of the order side enumeration.\<close>
  "dxf_osd_buy = 1"

definition dxf_osd_sell :: int where
  \<comment> \<open>Modelled from the spec: enumerator of the order side enumeration.\<close>
  "dxf_osd_sell = 2"

definition orderScopeToString :: "int \<Rightarrow> string" where
  "orderScopeToString scope =
     (if scope = dxf_osc_composite then ''Composite''
      else if scope = dxf_osc_regional then ''Regional''
      else if scope = dxf_osc_aggregate then ''Aggregate''
      else if scope = dxf_osc_order then ''Order''
      else '''')"

definition orderSideToString :: "int \<Rightarrow> string" where
  "orderSideToString side =
     (if side = dxf_osd_undefined then ''Undefined''
      else if side = dxf_osd_buy then ''Buy''
      else if side = dxf_osd_sell then ''Sell''
      else '''')"

text \<open>
  \<^verbatim>\<open>printTimestamp\<close> prints the key name only if the pointer is non-null and the name
  non-empty; the source calls it with the default, empty name. The local-time rendering
  of the timestamp is left symbolic.
\<close>

definition printTimestamp :: "int \<Rightarrow> string option \<Rightarrow> world \<Rightarrow> world" where
  "printTimestamp timestamp keyName w =
     (let w1 = (if keyName \<noteq> None \<and> keyName \<noteq> Some [] then wcout [W keyName, S '' = ''] w
                else w)
      in wcout [Time timestamp] w1)"

section \<open>processLastError\<close>

definition processLastError :: "transport \<Rightarrow> world \<Rightarrow> world" where
  "processLastError T w =
     (case facade T GetLastError (w @ [Acquire ioMutex]) of (r, w1) \<Rightarrow>
        (let errorCode = (case code_out r of None \<Rightarrow> dx_ec_success | Some c \<Rightarrow> c);
             errorDescription = descr_out r
         in if res r = DXF_SUCCESS then
              (if errorCode = dx_ec_success
               then wcout [S ''No error information is stored'', Endl] w1 @ [Release ioMutex]
               else wcout [S ''Error occurred and successfully retrieved:\<newline>error code = '',
                           I errorCode, S ('', description = '' @ [CHR 0x22]),
                           W errorDescription, S [CHR 0x22], Endl] w1
                    @ [Release ioMutex])
            else wcout [S ''An error occurred but the error subsystem failed to initialize'',
                        Endl] w1
                 @ [Release ioMutex]))"

text \<open>\<^verbatim>\<open>log\<close>: one formatted line, printed while holding the output mutex.\<close>

definition log_msg :: "string \<Rightarrow> arg list \<Rightarrow> world \<Rightarrow> world" where
  "log_msg format args w = w @ [Acquire ioMutex, Out (Print format args), Release ioMutex]"

section \<open>Subscription\<close>

text \<open>
  The template argument \<^verbatim>\<open>id\<close> is the field \<open>sub_id\<close>; the member \<^verbatim>\<open>mutex\<close> is the mutex
  named \<open>SubMutex sub_id\<close>, seen through its acquire and release events.
\<close>

record Subscription =
  sub_id :: nat
  connection :: dxf_connection_t
  symbol :: dxf_const_string_t
  handle :: dxf_subscription_t
  errorCode :: ERRORCODE

definition getListener :: "nat \<Rightarrow> ListenerPtrType" where
  "getListener i = Listener i"

definition Subscription_ctor ::
  "transport \<Rightarrow> nat \<Rightarrow> dxf_connection_t \<Rightarrow> dxf_const_string_t \<Rightarrow> world \<Rightarrow> Subscription \<times> world" where
  "Subscription_ctor T i conn symb w =
     (let s0 = \<lparr>sub_id = i, connection = conn, symbol = symb, handle = None, errorCode = DXF_SUCCESS\<rparr>;
          w1 = log_msg ''Sub[id = {}]: Creating a subscription\<newline>'' [N i] w
      in case facade T (CreateSubscription conn DXF_ET_QUOTE) w1 of (r1, w2) \<Rightarrow>
        (let s1 = s0\<lparr>handle := ptr_out r1, errorCode := res r1\<rparr>
         in if errorCode s1 = DXF_FAILURE then (s1, processLastError T w2)
            else
              (let w3 = log_msg ''Sub[id = {}, handle = {}]: Attaching the listener: {}\<newline>''
                          [N i, P (handle s1), L (getListener i)] w2
               in case facade T (AttachEventListener (handle s1) (getListener i) i) w3 of (r2, w4) \<Rightarrow>
                 (let s2 = s1\<lparr>errorCode := res r2\<rparr>
                  in if errorCode s2 = DXF_FAILURE then (s2, processLastError T w4)
                     else
                       (let w5 = log_msg ''Sub[id = {}, handle = {}]: Adding the symbol: {}\<newline>''
                                   [N i, P (handle s2), S (symbol s2)] w4
                        in case facade T (AddSymbol (handle s2) (symbol s2)) w5 of (r3, w6) \<Rightarrow>
                          (let s3 = s2\<lparr>errorCode := res r3\<rparr>
                           in if errorCode s3 = DXF_FAILURE then (s3, processLastError T w6)
                              else (s3, w6)))))))"

definition CloseImpl :: "transport \<Rightarrow> Subscription \<Rightarrow> world \<Rightarrow> Subscription \<times> world" where
  "CloseImpl T s w =
     (if handle s \<noteq> None \<and> errorCode s = DXF_SUCCESS then
        (let w1 = log_msg ''Sub[id = {}, handle = {}]: Removing the symbol: {}\<newline>''
                    [N (sub_id s), P (handle s), S (symbol s)] w
         in case facade T (RemoveSymbol (handle s) (symbol s)) w1 of (r1, w2) \<Rightarrow>
           (let s1 = s\<lparr>errorCode := res r1\<rparr>
            in if errorCode s1 = DXF_FAILURE then (s1, processLastError T w2)
               else
                 (let w3 = log_msg ''Sub[id = {}, handle = {}]: Detaching the listener: {}\<newline>''
                             [N (sub_id s1), P (handle s1), L (getListener (sub_id s1))] w2
                  in case facade T (DetachEventListener (handle s1) (getListener (sub_id s1))) w3 of (r2, w4) \<Rightarrow>
                    (let result = res r2
                     in if result = DXF_FAILURE then (s1, processLastError T w4)
                        else
                          (let w5 = log_msg ''Sub[id = {}, handle = {}]: Closing the subscription\<newline>''
                                      [N (sub_id s1), P (handle s1)] w4
                           in case facade T (CloseSubscription (handle s1)) w5 of (r3, w6) \<Rightarrow>
                             (let s3 = s1\<lparr>errorCode := res r3\<rparr>;
                                  w7 = (if errorCode s3 = DXF_FAILURE then processLastError T w6 else w6)
                              in (s3\<lparr>handle := None\<rparr>, w7)))))))
      else (s, w))"

definition Close :: "transport \<Rightarrow> Subscription \<Rightarrow> world \<Rightarrow> Subscription \<times> world" where
  "Close T s w =
     (case CloseImpl T s (w @ [Acquire (SubMutex (sub_id s))]) of (s', w') \<Rightarrow>
        (s', w' @ [Release (SubMutex (sub_id s))]))"

definition Subscription_dtor :: "transport \<Rightarrow> Subscription \<Rightarrow> world \<Rightarrow> Subscription \<times> world" where
  "Subscription_dtor T s w = CloseImpl T s w"

text \<open>
  The listener of \<^verbatim>\<open>Subscription<id>\<close>. It is a captureless lambda: it reads no
  Subscription object, only its arguments. \<open>data\<close> is the quote the pointer refers to.
\<close>

record dxf_quote_t =
  \<comment> \<open>Modelled from the spec: the quote record (section 3: timestamps, prices, sizes,
      exchange codes, scope), declared in the missing \<^verbatim>\<open>EventData.h\<close>; the fields
      are the ones the listener reads. Floating-point fields are only passed on to the
      output, so they are carried as reals.\<close>
  bid_time :: int
  bid_exchange_code :: char
  bid_price :: real
  bid_size :: real
  ask_time :: int
  ask_exchange_code :: char
  scope :: int

definition listener ::
  "nat \<Rightarrow> int \<Rightarrow> dxf_const_string_t \<Rightarrow> dxf_quote_t \<Rightarrow> int \<Rightarrow> nat \<Rightarrow> world \<Rightarrow> world" where
  "listener i eventType symbolName q dataCount userData w =
     (let w1 = wcout [S ''Sub['', N i, S '']: Listener['', N userData, S '']: '']
                 (w @ [Acquire ioMutex])
      in if eventType = DXF_ET_QUOTE then
           (let w2 = wcout [S ''Quote{symbol = '', S symbolName] w1;
                w3 = wcout [S '' bidTime = ''] w2;
                w4 = printTimestamp (bid_time q) (Some []) w3;
                w5 = wcout [S '' bidExchangeCode = '', C (bid_exchange_code q),
                            S '', bidPrice = '', D (bid_price q),
                            S '', bidSize='', D (bid_size q), S '', ''] w4;
                w6 = wcout [S ''askTime = ''] w5;
                w7 = printTimestamp (ask_time q) (Some []) w6;
                w8 = wcout [S '' askExchangeCode = '', C (ask_exchange_code q),
                            S '', askPrice = '', D (bid_price q),
                            S '', askSize='', D (bid_size q), S '', ''] w7;
                w9 = wcout [S ''scope = '', S (orderScopeToString (scope q)), S ''}'', Endl] w8
            in w9 @ [Release ioMutex])
         else w1 @ [Release ioMutex])"

text \<open>The function a listener pointer refers to.\<close>

fun invoke ::
  "ListenerPtrType \<Rightarrow> int \<Rightarrow> dxf_const_string_t \<Rightarrow> dxf_quote_t \<Rightarrow> int \<Rightarrow> nat \<Rightarrow> world \<Rightarrow> world" where
  "invoke (Listener i) eventType symbolName q dataCount userData w =
     listener i eventType symbolName q dataCount userData w"

section \<open>The registry: the vector of subscriptions in main\<close>

text \<open>
  \<^verbatim>\<open>subs[i]->Close()\<close>: the entry at a position is closed in place. An index out of
  range is undefined behaviour in the source and \<open>None\<close> here.
\<close>

definition closeAt ::
  "transport \<Rightarrow> nat \<Rightarrow> Subscription list \<Rightarrow> world \<Rightarrow> (Subscription list \<times> world) option" where
  "closeAt T i subs w =
     (if i < length subs
      then (case Close T (subs ! i) w of (s', w') \<Rightarrow> Some (subs[i := s'], w'))
      else None)"

text \<open>
  The vector goes out of scope at the end of \<^verbatim>\<open>main\<close>, and its destructor destroys
  each element, which runs \<^verbatim>\<open>~Subscription\<close>. \<open>destroy_all\<close> destroys the entries at the
  positions \<open>ord\<close>, in that order (a position outside the vector names no element and is
  passed over); the vector's destructor is \<open>destroy_all\<close> on the positions from first
  to last, the order in which the standard library the program is built with destroys
  the elements. The returned list holds each object's fields as its destructor left
  them.
\<close>

fun destroy_all ::
  "transport \<Rightarrow> nat list \<Rightarrow> Subscription list \<Rightarrow> world \<Rightarrow> Subscription list \<times> world" where
  "destroy_all T [] subs w = (subs, w)"
| "destroy_all T (i # ord) subs w =
     (if i < length subs
      then (case Subscription_dtor T (subs ! i) w of (s', w') \<Rightarrow>
              destroy_all T ord (subs[i := s']) w')
      else destroy_all T ord subs w)"

text \<open>
  \<^verbatim>\<open>main\<close>, as its own thread runs it: the waits between the steps are left out, and so
  are the listener calls the transport makes meanwhile on its own threads. The
  connection is closed by the scope-exit action, which is declared before the vector and
  therefore runs after the vector is destroyed.
\<close>

definition main_symbol :: dxf_const_string_t where
  "main_symbol = ''ETH/USD''"

definition main :: "transport \<Rightarrow> world \<Rightarrow> int \<times> world" where
  "main T w =
     (case facade T InitializeLogger w of (r01, w01) \<Rightarrow>
      case facade T LoadConfig w01 of (r02, w02) \<Rightarrow>
      case facade T CreateConnection w02 of (r0, w0) \<Rightarrow>
        (let c = ptr_out r0
         in if res r0 = DXF_FAILURE then (1, processLastError T w0)
            else
              (case Subscription_ctor T 1 c main_symbol w0 of (s1, w1) \<Rightarrow>
               case Subscription_ctor T 2 c main_symbol w1 of (s2, w2) \<Rightarrow>
               case Subscription_ctor T 3 c main_symbol w2 of (s3, w3) \<Rightarrow>
               case Subscription_ctor T 4 c main_symbol w3 of (s4, w4) \<Rightarrow>
               case Subscription_ctor T 5 c main_symbol w4 of (s5, w5) \<Rightarrow>
               case closeAt T 2 [s1, s2, s3, s4, s5] w5 of
                 None \<Rightarrow> (0, w5)
               | Some (subs, w6) \<Rightarrow>
                  (case destroy_all T [0..<length subs] subs w6 of (subs', w7) \<Rightarrow>
                   case facade T (CloseConnection c) w7 of (r8, w8) \<Rightarrow>
                     (0, if res r8 = DXF_FAILURE then processLastError T w8 else w8)))))"

section \<open>Lifecycle, as the code encodes it\<close>

text \<open>
  The source keeps no lifecycle field. What it tests is the guard of \<^verbatim>\<open>CloseImpl\<close>:
  a subscription on which close does work has a handle and no recorded failure.
\<close>

definition is_active :: "Subscription \<Rightarrow> bool" where
  "is_active s \<longleftrightarrow> handle s \<noteq> None \<and> errorCode s = DXF_SUCCESS"

text \<open>The events a step added to the run.\<close>

definition added :: "world \<Rightarrow> world \<Rightarrow> event list" where
  "added w w' = drop (length w) w'"

text \<open>Operations applied to one subscription after its construction.\<close>

datatype op = OpClose | OpDestroy | OpDispatch int dxf_const_string_t dxf_quote_t int nat

fun apply_op :: "transport \<Rightarrow> op \<Rightarrow> Subscription \<times> world \<Rightarrow> Subscription \<times> world" where
  "apply_op T OpClose (s, w) = Close T s w"
| "apply_op T OpDestroy (s, w) = Subscription_dtor T s w"
| "apply_op T (OpDispatch eventType symbolName q dataCount userData) (s, w) =
     (s, invoke (getListener (sub_id s)) eventType symbolName q dataCount userData w)"

fun run_ops :: "transport \<Rightarrow> op list \<Rightarrow> Subscription \<times> world \<Rightarrow> Subscription \<times> world" where
  "run_ops T [] sw = sw"
| "run_ops T (x # xs) sw = run_ops T xs (apply_op T x sw)"

section \<open>Transports used as concrete inputs\<close>

definition ok_reply :: "nat \<Rightarrow> reply" where
  "ok_reply h = \<lparr>res = DXF_SUCCESS, ptr_out = Some h, code_out = None, descr_out = None\<rparr>"

definition fail_reply :: reply where
  "fail_reply = \<lparr>res = DXF_FAILURE, ptr_out = None, code_out = None, descr_out = None\<rparr>"

definition error_reply :: reply where
  "error_reply = \<lparr>res = DXF_SUCCESS, ptr_out = None, code_out = Some 17, descr_out = Some ''bad handle''\<rparr>"

text \<open>Every call succeeds; a created handle is numbered by the calls made before it.\<close>

definition T_ok :: transport where
  "T_ok cs c = (case c of GetLastError \<Rightarrow> error_reply | _ \<Rightarrow> ok_reply (Suc (length cs)))"

text \<open>The same transport with one kind of call failing.\<close>

definition T_create_fails :: transport where
  "T_create_fails cs c = (case c of CreateSubscription _ _ \<Rightarrow> fail_reply | _ \<Rightarrow> T_ok cs c)"

definition T_attach_fails :: transport where
  "T_attach_fails cs c =
     (case c of AttachEventListener _ _ _ \<Rightarrow> fail_reply | _ \<Rightarrow> T_ok cs c)"

definition T_remove_fails :: transport where
  "T_remove_fails cs c = (case c of RemoveSymbol _ _ \<Rightarrow> fail_reply | _ \<Rightarrow> T_ok cs c)"

definition T_detach_fails :: transport where
  "T_detach_fails cs c = (case c of DetachEventListener _ _ \<Rightarrow> fail_reply | _ \<Rightarrow> T_ok cs c)"

definition T_close_fails :: transport where
  "T_close_fails cs c = (case c of CloseSubscription _ \<Rightarrow> fail_reply | _ \<Rightarrow> T_ok cs c)"

definition T_query_fails :: transport where
  "T_query_fails cs c = fail_reply"

definition T_no_error :: transport where
  "T_no_error cs c = ok_reply 0"

text \<open>The error query succeeds with a stored error code and leaves the description null.\<close>

definition T_null_descr :: transport where
  "T_null_descr cs c =
     \<lparr>res = DXF_SUCCESS, ptr_out = None, code_out = Some 17, descr_out = None\<rparr>"

section \<open>The replies a run receives\<close>

text \<open>
  The replies of the transport to the three setup calls of a constructor started in the
  run \<open>w\<close>, and to the three teardown calls of \<^verbatim>\<open>CloseImpl\<close> started in the run \<open>w\<close>.
  Printing does not change what the transport has seen.
\<close>

definition create_reply :: "transport \<Rightarrow> world \<Rightarrow> dxf_connection_t \<Rightarrow> reply" where
  "create_reply T w c = T (calls_of w) (CreateSubscription c DXF_ET_QUOTE)"

definition attach_reply :: "transport \<Rightarrow> world \<Rightarrow> dxf_connection_t \<Rightarrow> nat \<Rightarrow> reply" where
  "attach_reply T w c i =
     T (calls_of w @ [CreateSubscription c DXF_ET_QUOTE])
       (AttachEventListener (ptr_out (create_reply T w c)) (getListener i) i)"

definition add_reply ::
  "transport \<Rightarrow> world \<Rightarrow> dxf_connection_t \<Rightarrow> nat \<Rightarrow> dxf_const_string_t \<Rightarrow> reply" where
  "add_reply T w c i symb =
     T (calls_of w @ [CreateSubscription c DXF_ET_QUOTE,
                      AttachEventListener (ptr_out (create_reply T w c)) (getListener i) i])
       (AddSymbol (ptr_out (create_reply T w c)) symb)"

definition remove_reply :: "transport \<Rightarrow> world \<Rightarrow> Subscription \<Rightarrow> reply" where
  "remove_reply T w s = T (calls_of w) (RemoveSymbol (handle s) (symbol s))"

definition detach_reply :: "transport \<Rightarrow> world \<Rightarrow> Subscription \<Rightarrow> reply" where
  "detach_reply T w s =
     T (calls_of w @ [RemoveSymbol (handle s) (symbol s)])
       (DetachEventListener (handle s) (getListener (sub_id s)))"

definition close_reply :: "transport \<Rightarrow> world \<Rightarrow> Subscription \<Rightarrow> reply" where
  "close_reply T w s =
     T (calls_of w @ [RemoveSymbol (handle s) (symbol s),
                      DetachEventListener (handle s) (getListener (sub_id s))])
       (CloseSubscription (handle s))"

text \<open>The items \<^verbatim>\<open>processLastError\<close> inserts for a reply of \<^verbatim>\<open>dxf_get_last_error\<close>.\<close>

definition last_error_msg :: "reply \<Rightarrow> arg list" where
  "last_error_msg r =
     (if res r = DXF_SUCCESS then
        (if (case code_out r of None \<Rightarrow> dx_ec_success | Some c \<Rightarrow> c) = dx_ec_success
         then [S ''No error information is stored'', Endl]
         else [S ''Error occurred and successfully retrieved:\<newline>error code = '',
               I (case code_out r of None \<Rightarrow> dx_ec_success | Some c \<Rightarrow> c),
               S ('', description = '' @ [CHR 0x22]), W (descr_out r), S [CHR 0x22], Endl])
      else [S ''An error occurred but the error subsystem failed to initialize'', Endl])"

section \<open>Concrete subscriptions\<close>

definition active_sub :: "transport \<Rightarrow> Subscription \<times> world" where
  "active_sub T = Subscription_ctor T 1 (Some 0) main_symbol []"

definition partial_sub :: "Subscription \<times> world" where
  "partial_sub = Subscription_ctor T_attach_fails 1 (Some 0) main_symbol []"

definition sample_quote :: dxf_quote_t where
  "sample_quote =
     \<lparr>bid_time = 1000, bid_exchange_code = CHR ''Q'', bid_price = 1, bid_size = 2,
      ask_time = 1001, ask_exchange_code = CHR ''Q'', scope = dxf_osc_composite\<rparr>"

text \<open>Two subscriptions constructed one after the other, as \<^verbatim>\<open>main\<close> does.\<close>

definition two_subs :: "Subscription list \<times> world" where
  "two_subs =
     (case Subscription_ctor T_ok 1 (Some 0) main_symbol [] of (s1, w1) \<Rightarrow>
      case Subscription_ctor T_ok 2 (Some 0) main_symbol w1 of (s2, w2) \<Rightarrow> ([s1, s2], w2))"

section \<open>Observing teardown attempts\<close>

text \<open>
  Teardown of a subscription starts with the removal of its symbol, so the removal calls
  of a run tell which teardowns were attempted, and in which order.
\<close>

fun is_remove :: "call \<Rightarrow> bool" where
  "is_remove (RemoveSymbol h x) = True"
| "is_remove c = False"

definition first_step :: "Subscription \<Rightarrow> call" where
  "first_step s = RemoveSymbol (handle s) (symbol s)"

text \<open>The facade calls the teardown of a subscription can make.\<close>

definition teardown_calls :: "Subscription \<Rightarrow> call list" where
  "teardown_calls s =
     [RemoveSymbol (handle s) (symbol s),
      DetachEventListener (handle s) (getListener (sub_id s)),
      CloseSubscription (handle s), GetLastError]"

section \<open>Basic facts\<close>

lemma calls_of_append [simp]: "calls_of (xs @ ys) = calls_of xs @ calls_of ys"
  by (induction xs) (auto split: event.splits)

lemma acquired_append [simp]: "acquired (xs @ ys) = acquired xs @ acquired ys"
  by (induction xs) (auto split: event.splits)

lemma added_append [simp]: "added w (w @ ev) = ev"
  by (simp add: added_def)

lemma added_same [simp]: "added w w = []"
  by (simp add: added_def)

lemma calls_of_wcout_events [simp]: "calls_of (wcout_events b items) = []"
  by (simp add: wcout_events_def)

lemma acquired_wcout_events [simp]: "acquired (wcout_events b items) = []"
  by (simp add: wcout_events_def)

lemma wcout_failed_append [simp]: "wcout_failed (w @ ev) \<longleftrightarrow> wcout_failed w \<or> wcout_failed ev"
  by (auto simp add: wcout_failed_def)

lemma wcout_failed_Cons [simp]: "wcout_failed (e # ev) \<longleftrightarrow> e = Out Badbit \<or> wcout_failed ev"
  by (auto simp add: wcout_failed_def)

lemma wcout_failed_Nil [simp]: "\<not> wcout_failed []"
  by (simp add: wcout_failed_def)

lemma processLastError_eq:
  "processLastError T w =
     w @ [Acquire ioMutex, Call GetLastError]
       @ wcout_events (wcout_failed w) (last_error_msg (T (calls_of w) GetLastError))
       @ [Release ioMutex]"
  by (simp add: processLastError_def facade_def last_error_msg_def wcout_def Let_def)

lemma CloseImpl_inactive: "\<not> is_active s \<Longrightarrow> CloseImpl T s w = (s, w)"
  by (auto simp add: CloseImpl_def is_active_def)

lemma Close_inactive:
  "\<not> is_active s \<Longrightarrow>
   Close T s w = (s, w @ [Acquire (SubMutex (sub_id s)), Release (SubMutex (sub_id s))])"
  by (simp add: Close_def CloseImpl_inactive)

lemma CloseImpl_frame:
  "calls_of w1 = calls_of w2 \<Longrightarrow> wcout_failed w1 = wcout_failed w2 \<Longrightarrow>
   \<exists>s' ev. CloseImpl T s w1 = (s', w1 @ ev) \<and> CloseImpl T s w2 = (s', w2 @ ev)"
  by (simp add: CloseImpl_def processLastError_eq facade_def log_msg_def Let_def)

lemma CloseImpl_extends: "\<exists>s' ev. CloseImpl T s w = (s', w @ ev)"
  using CloseImpl_frame [of w w T s] by simp

lemmas run_defs = Subscription_ctor_def CloseImpl_def facade_def log_msg_def processLastError_eq Let_def

lemmas reply_defs = create_reply_def attach_reply_def add_reply_def remove_reply_def
  detach_reply_def close_reply_def

lemmas T_defs = T_ok_def T_create_fails_def T_attach_fails_def T_remove_fails_def
  T_detach_fails_def T_close_fails_def T_query_fails_def T_no_error_def ok_reply_def
  fail_reply_def error_reply_def

lemma active_sub_ok: "fst (active_sub T_ok) = \<lparr>sub_id = 1, connection = Some 0, symbol = main_symbol, handle = Some 1, errorCode = DXF_SUCCESS\<rparr>"
  by (simp add: active_sub_def run_defs T_defs)

lemma active_sub_calls: "calls_of (snd (active_sub T_ok)) =
   [CreateSubscription (Some 0) DXF_ET_QUOTE, AttachEventListener (Some 1) (Listener 1) 1, AddSymbol (Some 1) main_symbol]"
  by (simp add: active_sub_def run_defs T_defs getListener_def)

section \<open>The error reporter\<close>

text \<open>
  While \<^verbatim>\<open>std::wcout\<close> has not failed, \<^verbatim>\<open>processLastError\<close> makes one query and prints
  one message: the no-error message when the query succeeds with \<^verbatim>\<open>dx_ec_success\<close>, the
  code and the description when it succeeds with another code and a description, the
  subsystem message when the query fails.
\<close>

lemma processLastError_messages:
  "\<not> wcout_failed w \<Longrightarrow>
   (res (T (calls_of w) GetLastError) = DXF_SUCCESS
      \<and> (case code_out (T (calls_of w) GetLastError) of None \<Rightarrow> dx_ec_success | Some c \<Rightarrow> c)
          = dx_ec_success \<longrightarrow>
      processLastError T w =
        w @ [Acquire ioMutex, Call GetLastError,
             Out (Wcout [S ''No error information is stored'', Endl]), Release ioMutex])
   \<and> (res (T (calls_of w) GetLastError) = DXF_SUCCESS
      \<and> code_out (T (calls_of w) GetLastError) = Some c \<and> c \<noteq> dx_ec_success
      \<and> descr_out (T (calls_of w) GetLastError) = Some d \<longrightarrow>
      processLastError T w =
        w @ [Acquire ioMutex, Call GetLastError,
             Out (Wcout [S ''Error occurred and successfully retrieved:\<newline>error code = '',
                         I c, S ('', description = '' @ [CHR 0x22]), W (Some d), S [CHR 0x22],
                         Endl]),
             Release ioMutex])
   \<and> (res (T (calls_of w) GetLastError) = DXF_FAILURE \<longrightarrow>
      processLastError T w =
        w @ [Acquire ioMutex, Call GetLastError,
             Out (Wcout [S ''An error occurred but the error subsystem failed to initialize'',
                         Endl]),
             Release ioMutex])"
  by (simp add: processLastError_eq last_error_msg_def wcout_events_def)

text \<open>Once the stream has failed, no outcome prints anything.\<close>

lemma processLastError_after_failure:
  "wcout_failed w \<Longrightarrow>
   processLastError T w = w @ [Acquire ioMutex, Call GetLastError, Release ioMutex]"
  by (simp add: processLastError_eq wcout_events_def)


section \<open>Display helpers\<close>

text \<open>
  C9, as the code has it. Both helpers are total: each defined enumerator maps to its
  name, and a value is outside the defined enumerators exactly when the helper returns
  the empty string. No value maps to a text saying "unknown".
\<close>

theorem display_helpers_total:
  "orderScopeToString dxf_osc_composite = ''Composite''
   \<and> orderScopeToString dxf_osc_regional = ''Regional''
   \<and> orderScopeToString dxf_osc_aggregate = ''Aggregate''
   \<and> orderScopeToString dxf_osc_order = ''Order''
   \<and> (v \<notin> {dxf_osc_composite, dxf_osc_regional, dxf_osc_aggregate, dxf_osc_order}
        \<longleftrightarrow> orderScopeToString v = '''')
   \<and> orderSideToString dxf_osd_undefined = ''Undefined''
   \<and> orderSideToString dxf_osd_buy = ''Buy''
   \<and> orderSideToString dxf_osd_sell = ''Sell''
   \<and> (side \<notin> {dxf_osd_undefined, dxf_osd_buy, dxf_osd_sell} \<longleftrightarrow> orderSideToString side = '''')"
  by (simp add: orderScopeToString_def orderSideToString_def dxf_osc_composite_def
        dxf_osc_regional_def dxf_osc_aggregate_def dxf_osc_order_def dxf_osd_undefined_def
        dxf_osd_buy_def dxf_osd_sell_def)

text \<open>
  C9 as stated fails: a value outside the enumerators is shown as the empty string, not
  as an "unknown" text.
\<close>

theorem display_helpers_unknown_counterexample:
  "orderScopeToString 99 = [] \<and> orderSideToString (- 1) = []
   \<and> orderScopeToString 99 \<noteq> ''unknown'' \<and> orderSideToString (- 1) \<noteq> ''unknown''"
  by (simp add: orderScopeToString_def orderSideToString_def dxf_osc_composite_def
        dxf_osc_regional_def dxf_osc_aggregate_def dxf_osc_order_def dxf_osd_undefined_def
        dxf_osd_buy_def dxf_osd_sell_def)

section \<open>Setup\<close>

text \<open>
  C5. If allocating the handle fails, the constructor calls the facade only for the
  allocation and for the error query, and records the failure. If allocation succeeds
  and attaching the listener fails, it calls the facade for allocation, attachment and
  the error query: no symbol is added, and the recorded error is the failure of the
  attachment.
\<close>

theorem setup_fail_fast:
  "(res (create_reply T w c) = DXF_FAILURE \<longrightarrow>
      calls_of (added w (snd (Subscription_ctor T i c symb w)))
        = [CreateSubscription c DXF_ET_QUOTE, GetLastError]
      \<and> errorCode (fst (Subscription_ctor T i c symb w)) = DXF_FAILURE)
   \<and> (res (create_reply T w c) = DXF_SUCCESS \<and> res (attach_reply T w c i) = DXF_FAILURE \<longrightarrow>
      calls_of (added w (snd (Subscription_ctor T i c symb w)))
        = [CreateSubscription c DXF_ET_QUOTE,
           AttachEventListener (ptr_out (create_reply T w c)) (getListener i) i, GetLastError]
      \<and> (\<forall>h x. AddSymbol h x \<notin> set (calls_of (added w (snd (Subscription_ctor T i c symb w)))))
      \<and> errorCode (fst (Subscription_ctor T i c symb w)) = DXF_FAILURE)"
  by (simp add: Subscription_ctor_def facade_def log_msg_def processLastError_eq Let_def
        create_reply_def attach_reply_def)

theorem setup_fail_fast_witness:
  "calls_of (added [] (snd (Subscription_ctor T_create_fails 1 (Some 0) main_symbol [])))
     = [CreateSubscription (Some 0) DXF_ET_QUOTE, GetLastError]
   \<and> errorCode (fst (Subscription_ctor T_create_fails 1 (Some 0) main_symbol [])) = DXF_FAILURE
   \<and> calls_of (added [] (snd (Subscription_ctor T_attach_fails 1 (Some 0) main_symbol [])))
     = [CreateSubscription (Some 0) DXF_ET_QUOTE,
        AttachEventListener (Some 1) (Listener 1) 1, GetLastError]
   \<and> errorCode (fst (Subscription_ctor T_attach_fails 1 (Some 0) main_symbol [])) = DXF_FAILURE"
proof -
  have h1: "res (create_reply T_create_fails [] (Some 0)) = DXF_FAILURE"
    by (simp add: reply_defs T_defs)
  have h2: "res (create_reply T_attach_fails [] (Some 0)) = DXF_SUCCESS
      \<and> res (attach_reply T_attach_fails [] (Some 0) 1) = DXF_FAILURE"
    by (simp add: reply_defs T_defs)
  have e: "ptr_out (create_reply T_attach_fails [] (Some 0)) = Some 1" "getListener 1 = Listener 1"
    by (simp_all add: reply_defs T_defs getListener_def)
  from setup_fail_fast [of T_create_fails "[]" "Some 0" 1 main_symbol] h1
       setup_fail_fast [of T_attach_fails "[]" "Some 0" 1 main_symbol] h2
  show ?thesis unfolding e by blast
qed

section \<open>Listener identity\<close>

text \<open>
  C10. Every attach call of a constructor run passes the subscription's handle, the
  pointer \<^verbatim>\<open>getListener()\<close> of its identity and the identity as user context, and such
  a call is made whenever allocation succeeds. Every detach call of a teardown passes
  the handle and the pointer \<^verbatim>\<open>getListener()\<close> of the same identity, and such a call is
  made whenever the subscription is active and the symbol was removed. Two identities
  have the same listener pointer only if they are equal.
\<close>

theorem listener_round_trip:
  "(\<forall>h l u. AttachEventListener h l u \<in> set (calls_of (added w (snd (Subscription_ctor T i c symb w))))
       \<longrightarrow> h = handle (fst (Subscription_ctor T i c symb w)) \<and> l = getListener i \<and> u = i)
   \<and> (res (create_reply T w c) = DXF_SUCCESS \<longrightarrow>
        AttachEventListener (handle (fst (Subscription_ctor T i c symb w))) (getListener i) i
          \<in> set (calls_of (added w (snd (Subscription_ctor T i c symb w)))))
   \<and> sub_id (fst (Subscription_ctor T i c symb w)) = i
   \<and> (\<forall>h l. DetachEventListener h l \<in> set (calls_of (added w' (snd (CloseImpl T' s w'))))
       \<longrightarrow> h = handle s \<and> l = getListener (sub_id s))
   \<and> (is_active s \<and> res (remove_reply T' w' s) = DXF_SUCCESS \<longrightarrow>
        DetachEventListener (handle s) (getListener (sub_id s))
          \<in> set (calls_of (added w' (snd (CloseImpl T' s w')))))
   \<and> (getListener i = getListener j \<longleftrightarrow> i = j)"
proof -
  have a: "\<forall>h l u. AttachEventListener h l u \<in> set (calls_of (added w (snd (Subscription_ctor T i c symb w))))
       \<longrightarrow> h = handle (fst (Subscription_ctor T i c symb w)) \<and> l = getListener i \<and> u = i"
    by (simp add: run_defs)
  have b: "res (create_reply T w c) = DXF_SUCCESS \<longrightarrow>
        AttachEventListener (handle (fst (Subscription_ctor T i c symb w))) (getListener i) i
          \<in> set (calls_of (added w (snd (Subscription_ctor T i c symb w))))"
    by (simp add: run_defs reply_defs)
  have c: "sub_id (fst (Subscription_ctor T i c symb w)) = i"
    by (simp add: run_defs)
  have d: "\<forall>h l. DetachEventListener h l \<in> set (calls_of (added w' (snd (CloseImpl T' s w'))))
       \<longrightarrow> h = handle s \<and> l = getListener (sub_id s)"
    by (simp add: run_defs)
  have e: "is_active s \<and> res (remove_reply T' w' s) = DXF_SUCCESS \<longrightarrow>
        DetachEventListener (handle s) (getListener (sub_id s))
          \<in> set (calls_of (added w' (snd (CloseImpl T' s w'))))"
    by (simp add: run_defs reply_defs is_active_def)
  have f: "getListener i = getListener j \<longleftrightarrow> i = j"
    by (simp add: getListener_def)
  from a b c d e f show ?thesis by blast
qed

theorem listener_round_trip_witness:
  "AttachEventListener (Some 1) (Listener 1) 1 \<in> set (calls_of (added [] (snd (active_sub T_ok))))
   \<and> DetachEventListener (Some 1) (Listener 1)
       \<in> set (calls_of (added (snd (active_sub T_ok))
                 (snd (CloseImpl T_ok (fst (active_sub T_ok)) (snd (active_sub T_ok))))))"
proof -
  note rt = listener_round_trip [of "[]" T_ok 1 "Some 0" main_symbol "snd (active_sub T_ok)"
      T_ok "fst (active_sub T_ok)" 2, folded active_sub_def]
  have h1: "res (create_reply T_ok [] (Some 0)) = DXF_SUCCESS"
    by (simp add: reply_defs T_defs)
  have h2: "is_active (fst (active_sub T_ok))"
    by (simp add: active_sub_ok is_active_def)
  have h3: "res (remove_reply T_ok (snd (active_sub T_ok)) (fst (active_sub T_ok))) = DXF_SUCCESS"
    by (simp add: reply_defs T_defs)
  have e: "handle (fst (active_sub T_ok)) = Some 1" "sub_id (fst (active_sub T_ok)) = 1"
      "getListener 1 = Listener 1"
    by (simp_all add: active_sub_ok getListener_def)
  from rt h1 h2 h3 show ?thesis
    unfolding e by blast
qed

section \<open>Close after an aborted setup\<close>

text \<open>
  C2, as the code has it. The constructor records a failure exactly when one of its
  three steps failed. On such a subscription close is safe and does nothing: it takes
  and releases the subscription's mutex, makes no facade call and leaves every field as
  it was, so the handle the allocation stored is not released.
\<close>

theorem close_after_aborted_setup:
  "(errorCode (fst (Subscription_ctor T i c symb w)) = DXF_FAILURE \<longleftrightarrow>
      res (create_reply T w c) = DXF_FAILURE \<or> res (attach_reply T w c i) = DXF_FAILURE
      \<or> res (add_reply T w c i symb) = DXF_FAILURE)
   \<and> (errorCode (fst (Subscription_ctor T i c symb w)) = DXF_FAILURE \<longrightarrow>
        Close T' (fst (Subscription_ctor T i c symb w)) w'
          = (fst (Subscription_ctor T i c symb w), w' @ [Acquire (SubMutex i), Release (SubMutex i)])
        \<and> calls_of (added w' (snd (Close T' (fst (Subscription_ctor T i c symb w)) w'))) = []
        \<and> handle (fst (Close T' (fst (Subscription_ctor T i c symb w)) w'))
            = ptr_out (create_reply T w c))"
proof -
  have a: "errorCode (fst (Subscription_ctor T i c symb w)) = DXF_FAILURE \<longleftrightarrow>
      res (create_reply T w c) = DXF_FAILURE \<or> res (attach_reply T w c i) = DXF_FAILURE
      \<or> res (add_reply T w c i symb) = DXF_FAILURE"
    by (cases "res (create_reply T w c)"; cases "res (attach_reply T w c i)")
       (auto simp add: run_defs reply_defs)
  have i: "sub_id (fst (Subscription_ctor T i c symb w)) = i"
    by (simp add: run_defs)
  have h: "handle (fst (Subscription_ctor T i c symb w)) = ptr_out (create_reply T w c)"
    by (simp add: run_defs reply_defs)
  have b: "Close T' (fst (Subscription_ctor T i c symb w)) w'
          = (fst (Subscription_ctor T i c symb w), w' @ [Acquire (SubMutex i), Release (SubMutex i)])"
    if "errorCode (fst (Subscription_ctor T i c symb w)) = DXF_FAILURE"
    using Close_inactive [of "fst (Subscription_ctor T i c symb w)" T' w'] that
    by (simp add: is_active_def i)
  from a b h show ?thesis by simp
qed

theorem close_after_aborted_setup_witness:
  "errorCode (fst partial_sub) = DXF_FAILURE
   \<and> Close T_ok (fst partial_sub) (snd partial_sub)
       = (fst partial_sub, snd partial_sub @ [Acquire (SubMutex 1), Release (SubMutex 1)])"
proof -
  have "res (attach_reply T_attach_fails [] (Some 0) 1) = DXF_FAILURE"
    by (simp add: reply_defs T_defs)
  with close_after_aborted_setup [of T_attach_fails 1 "Some 0" main_symbol "[]" T_ok "snd partial_sub",
      folded partial_sub_def]
  show ?thesis by blast
qed

text \<open>
  C2 as stated fails: after an allocation that succeeded and an attachment that failed,
  the handle is non-null, and close neither calls \<^verbatim>\<open>dxf_close_subscription\<close> nor clears
  the handle.
\<close>

theorem close_after_aborted_setup_counterexample:
  "res (create_reply T_attach_fails [] (Some 0)) = DXF_SUCCESS
   \<and> res (attach_reply T_attach_fails [] (Some 0) 1) = DXF_FAILURE
   \<and> handle (fst partial_sub) = Some 1
   \<and> errorCode (fst partial_sub) = DXF_FAILURE
   \<and> handle (fst (Close T_ok (fst partial_sub) (snd partial_sub))) = Some 1
   \<and> CloseSubscription (Some 1) \<notin> set (calls_of (snd (Close T_ok (fst partial_sub) (snd partial_sub))))"
  by (simp add: partial_sub_def Close_def run_defs reply_defs T_defs getListener_def)


section \<open>Teardown that fails\<close>

lemma active_sub_state:
  "T \<in> {T_remove_fails, T_detach_fails, T_close_fails} \<Longrightarrow>
   fst (active_sub T) = \<lparr>sub_id = 1, connection = Some 0, symbol = main_symbol, handle = Some 1, errorCode = DXF_SUCCESS\<rparr>
   \<and> calls_of (snd (active_sub T)) =
   [CreateSubscription (Some 0) DXF_ET_QUOTE, AttachEventListener (Some 1) (Listener 1) 1, AddSymbol (Some 1) main_symbol]"
  by (auto simp add: active_sub_def run_defs T_defs getListener_def)

text \<open>
  C3, as the code has it, for an active subscription. If removing the symbol fails,
  teardown stops there: only the removal and the error query reach the facade, the
  failure is recorded, the handle stays, and a later close does nothing. If the
  removal succeeds and detaching the listener fails, teardown stops before the handle is
  closed and the handle stays. If only closing the handle fails, the failure is recorded
  and the handle field is cleared all the same, so a later close does nothing.
\<close>

theorem teardown_fail_fast:
  "is_active s \<longrightarrow>
     (res (remove_reply T w s) = DXF_FAILURE \<longrightarrow>
        calls_of (added w (snd (CloseImpl T s w))) = [RemoveSymbol (handle s) (symbol s), GetLastError]
        \<and> fst (CloseImpl T s w) = s\<lparr>errorCode := DXF_FAILURE\<rparr>
        \<and> handle (fst (CloseImpl T s w)) \<noteq> None
        \<and> CloseImpl T' (fst (CloseImpl T s w)) w' = (fst (CloseImpl T s w), w'))
   \<and> (res (remove_reply T w s) = DXF_SUCCESS \<and> res (detach_reply T w s) = DXF_FAILURE \<longrightarrow>
        calls_of (added w (snd (CloseImpl T s w)))
          = [RemoveSymbol (handle s) (symbol s),
             DetachEventListener (handle s) (getListener (sub_id s)), GetLastError]
        \<and> handle (fst (CloseImpl T s w)) = handle s
        \<and> handle (fst (CloseImpl T s w)) \<noteq> None)
   \<and> (res (remove_reply T w s) = DXF_SUCCESS \<and> res (detach_reply T w s) = DXF_SUCCESS
        \<and> res (close_reply T w s) = DXF_FAILURE \<longrightarrow>
        calls_of (added w (snd (CloseImpl T s w)))
          = [RemoveSymbol (handle s) (symbol s),
             DetachEventListener (handle s) (getListener (sub_id s)),
             CloseSubscription (handle s), GetLastError]
        \<and> fst (CloseImpl T s w) = s\<lparr>errorCode := DXF_FAILURE, handle := None\<rparr>
        \<and> CloseImpl T' (fst (CloseImpl T s w)) w' = (fst (CloseImpl T s w), w'))"
proof -
  have a: "calls_of (added w (snd (CloseImpl T s w))) = [RemoveSymbol (handle s) (symbol s), GetLastError]
        \<and> fst (CloseImpl T s w) = s\<lparr>errorCode := DXF_FAILURE\<rparr>
        \<and> handle (fst (CloseImpl T s w)) \<noteq> None"
    if "is_active s" "res (remove_reply T w s) = DXF_FAILURE"
    using that by (simp add: run_defs reply_defs is_active_def)
  have a': "CloseImpl T' (fst (CloseImpl T s w)) w' = (fst (CloseImpl T s w), w')"
    if "is_active s" "res (remove_reply T w s) = DXF_FAILURE"
    using a [OF that] by (simp add: CloseImpl_inactive is_active_def)
  have b: "calls_of (added w (snd (CloseImpl T s w)))
          = [RemoveSymbol (handle s) (symbol s),
             DetachEventListener (handle s) (getListener (sub_id s)), GetLastError]
        \<and> handle (fst (CloseImpl T s w)) = handle s
        \<and> handle (fst (CloseImpl T s w)) \<noteq> None"
    if "is_active s" "res (remove_reply T w s) = DXF_SUCCESS" "res (detach_reply T w s) = DXF_FAILURE"
    using that by (simp add: run_defs reply_defs is_active_def)
  have c: "calls_of (added w (snd (CloseImpl T s w)))
          = [RemoveSymbol (handle s) (symbol s),
             DetachEventListener (handle s) (getListener (sub_id s)),
             CloseSubscription (handle s), GetLastError]
        \<and> fst (CloseImpl T s w) = s\<lparr>errorCode := DXF_FAILURE, handle := None\<rparr>"
    if "is_active s" "res (remove_reply T w s) = DXF_SUCCESS" "res (detach_reply T w s) = DXF_SUCCESS"
       "res (close_reply T w s) = DXF_FAILURE"
    using that by (simp add: run_defs reply_defs is_active_def)
  have c': "CloseImpl T' (fst (CloseImpl T s w)) w' = (fst (CloseImpl T s w), w')"
    if "is_active s" "res (remove_reply T w s) = DXF_SUCCESS" "res (detach_reply T w s) = DXF_SUCCESS"
       "res (close_reply T w s) = DXF_FAILURE"
    using c [OF that] by (simp add: CloseImpl_inactive is_active_def)
  from a a' b c c' show ?thesis by blast
qed

theorem teardown_fail_fast_witness:
  "calls_of (added (snd (active_sub T_remove_fails))
      (snd (CloseImpl T_remove_fails (fst (active_sub T_remove_fails)) (snd (active_sub T_remove_fails)))))
     = [RemoveSymbol (Some 1) main_symbol, GetLastError]
   \<and> calls_of (added (snd (active_sub T_detach_fails))
      (snd (CloseImpl T_detach_fails (fst (active_sub T_detach_fails)) (snd (active_sub T_detach_fails)))))
     = [RemoveSymbol (Some 1) main_symbol, DetachEventListener (Some 1) (Listener 1), GetLastError]
   \<and> calls_of (added (snd (active_sub T_close_fails))
      (snd (CloseImpl T_close_fails (fst (active_sub T_close_fails)) (snd (active_sub T_close_fails)))))
     = [RemoveSymbol (Some 1) main_symbol, DetachEventListener (Some 1) (Listener 1),
        CloseSubscription (Some 1), GetLastError]"
proof -
  have act: "is_active (fst (active_sub T_remove_fails))" "is_active (fst (active_sub T_detach_fails))"
      "is_active (fst (active_sub T_close_fails))"
    by (simp_all add: active_sub_state is_active_def)
  have e: "handle (fst (active_sub T_remove_fails)) = Some 1" "symbol (fst (active_sub T_remove_fails)) = main_symbol"
     "handle (fst (active_sub T_detach_fails)) = Some 1" "symbol (fst (active_sub T_detach_fails)) = main_symbol"
     "handle (fst (active_sub T_close_fails)) = Some 1" "symbol (fst (active_sub T_close_fails)) = main_symbol"
     "sub_id (fst (active_sub T_detach_fails)) = 1" "sub_id (fst (active_sub T_close_fails)) = 1"
     "getListener 1 = Listener 1"
    by (simp_all add: active_sub_state getListener_def)
  have h1: "res (remove_reply T_remove_fails (snd (active_sub T_remove_fails)) (fst (active_sub T_remove_fails))) = DXF_FAILURE"
    by (simp add: reply_defs T_defs)
  have h2: "res (remove_reply T_detach_fails (snd (active_sub T_detach_fails)) (fst (active_sub T_detach_fails))) = DXF_SUCCESS
     \<and> res (detach_reply T_detach_fails (snd (active_sub T_detach_fails)) (fst (active_sub T_detach_fails))) = DXF_FAILURE"
    by (simp add: reply_defs T_defs)
  have h3: "res (remove_reply T_close_fails (snd (active_sub T_close_fails)) (fst (active_sub T_close_fails))) = DXF_SUCCESS
     \<and> res (detach_reply T_close_fails (snd (active_sub T_close_fails)) (fst (active_sub T_close_fails))) = DXF_SUCCESS
     \<and> res (close_reply T_close_fails (snd (active_sub T_close_fails)) (fst (active_sub T_close_fails))) = DXF_FAILURE"
    by (simp add: reply_defs T_defs)
  from teardown_fail_fast [of "fst (active_sub T_remove_fails)" T_remove_fails "snd (active_sub T_remove_fails)" T_ok "[]"]
       teardown_fail_fast [of "fst (active_sub T_detach_fails)" T_detach_fails "snd (active_sub T_detach_fails)" T_ok "[]"]
       teardown_fail_fast [of "fst (active_sub T_close_fails)" T_close_fails "snd (active_sub T_close_fails)" T_ok "[]"]
       act h1 h2 h3
  show ?thesis unfolding e by blast
qed

text \<open>
  C3 as stated fails: when \<^verbatim>\<open>dxf_close_subscription\<close> fails on an active subscription,
  the handle field is null afterwards.
\<close>

theorem teardown_fail_fast_counterexample:
  "is_active (fst (active_sub T_close_fails))
   \<and> res (close_reply T_close_fails (snd (active_sub T_close_fails)) (fst (active_sub T_close_fails))) = DXF_FAILURE
   \<and> handle (fst (CloseImpl T_close_fails (fst (active_sub T_close_fails)) (snd (active_sub T_close_fails)))) = None"
  by (simp add: active_sub_state is_active_def reply_defs CloseImpl_def facade_def log_msg_def Let_def)
     (simp add: T_defs)

section \<open>The paths into teardown\<close>

text \<open>
  C4, as the code has it. The destructor runs \<^verbatim>\<open>CloseImpl\<close> and nothing else. An
  explicit close runs the same body, with the same resulting fields and the same events,
  between acquiring and releasing the subscription's mutex. The body itself never
  acquires a subscription mutex, so the destructor path runs teardown without it.
\<close>

theorem teardown_paths:
  "Subscription_dtor T s w = CloseImpl T s w
   \<and> (\<exists>s' ev. CloseImpl T s w = (s', w @ ev)
        \<and> Close T s w = (s', w @ [Acquire (SubMutex (sub_id s))] @ ev @ [Release (SubMutex (sub_id s))])
        \<and> (\<forall>i. SubMutex i \<notin> set (acquired ev)))"
proof -
  have "calls_of w = calls_of (w @ [Acquire (SubMutex (sub_id s))])"
    and "wcout_failed w = wcout_failed (w @ [Acquire (SubMutex (sub_id s))])"
    by simp_all
  from CloseImpl_frame [OF this, of T s] obtain s' ev where
    1: "CloseImpl T s w = (s', w @ ev)" and
    2: "CloseImpl T s (w @ [Acquire (SubMutex (sub_id s))]) = (s', (w @ [Acquire (SubMutex (sub_id s))]) @ ev)"
    by blast
  have "added w (snd (CloseImpl T s w)) = ev" using 1 by simp
  moreover have "\<forall>i. SubMutex i \<notin> set (acquired (added w (snd (CloseImpl T s w))))"
    by (simp add: run_defs)
  ultimately have 3: "\<forall>i. SubMutex i \<notin> set (acquired ev)" by simp
  from 1 2 3 show ?thesis by (simp add: Subscription_dtor_def Close_def)
qed

text \<open>
  C4 as stated fails: on an active subscription the explicit close acquires the
  subscription's mutex, and the destructor performs the three teardown calls without
  acquiring it.
\<close>

theorem teardown_paths_counterexample:
  "SubMutex 1 \<in> set (acquired (added (snd (active_sub T_ok))
       (snd (Close T_ok (fst (active_sub T_ok)) (snd (active_sub T_ok))))))
   \<and> SubMutex 1 \<notin> set (acquired (added (snd (active_sub T_ok))
       (snd (Subscription_dtor T_ok (fst (active_sub T_ok)) (snd (active_sub T_ok))))))
   \<and> calls_of (added (snd (active_sub T_ok))
       (snd (Subscription_dtor T_ok (fst (active_sub T_ok)) (snd (active_sub T_ok)))))
      = [RemoveSymbol (Some 1) main_symbol, DetachEventListener (Some 1) (Listener 1),
         CloseSubscription (Some 1)]"
  by (simp add: active_sub_ok Subscription_dtor_def Close_def CloseImpl_def facade_def log_msg_def Let_def getListener_def added_def)
     (simp add: T_defs)


section \<open>Lifecycle\<close>

lemma listener_no_calls: "\<exists>ev. listener i e x q n u w = w @ ev \<and> calls_of ev = []"
  by (simp add: listener_def printTimestamp_def wcout_def Let_def)

lemma apply_op_closed:
  "handle s = None \<Longrightarrow> \<exists>ev. apply_op T x (s, w) = (s, w @ ev) \<and> calls_of ev = []"
proof (cases x)
  case OpClose
  assume "handle s = None"
  then show ?thesis using OpClose by (simp add: Close_inactive is_active_def)
next
  case OpDestroy
  assume "handle s = None"
  then show ?thesis using OpDestroy by (simp add: Subscription_dtor_def CloseImpl_inactive is_active_def)
next
  case (OpDispatch e x q n u)
  then show ?thesis using listener_no_calls [of "sub_id s" e x q n u w]
    by (simp add: getListener_def)
qed

lemma run_ops_closed:
  "handle s = None \<Longrightarrow> \<exists>ev. run_ops T ops (s, w) = (s, w @ ev) \<and> calls_of ev = []"
proof (induction ops arbitrary: w)
  case Nil
  then show ?case by simp
next
  case (Cons x xs)
  from apply_op_closed [OF Cons.prems, of T x w] obtain ev where
    1: "apply_op T x (s, w) = (s, w @ ev)" and 2: "calls_of ev = []" by blast
  from Cons.IH [OF Cons.prems, of "w @ ev"] obtain ev' where
    3: "run_ops T xs (s, w @ ev) = (s, (w @ ev) @ ev')" and 4: "calls_of ev' = []" by blast
  show ?case
    apply (rule exI [of _ "ev @ ev'"])
    using 1 2 3 4 by simp
qed

lemma closed_sub:
  "fst (Close T_ok (fst (active_sub T_ok)) (snd (active_sub T_ok)))
     = \<lparr>sub_id = 1, connection = Some 0, symbol = main_symbol, handle = None, errorCode = DXF_SUCCESS\<rparr>"
  by (simp add: active_sub_ok Close_def CloseImpl_def facade_def log_msg_def Let_def)
     (simp add: T_defs)

text \<open>
  C6, as the code has it. A constructed subscription is active (it has a handle and no
  recorded failure, the guard under which close works) exactly when all three setup
  steps succeeded and the allocation stored a non-null handle. An active subscription
  has a non-null handle; the converse is not claimed. Once the handle is null, no
  sequence of close, destruction and dispatch operations changes any field of the
  subscription or makes a facade call.
\<close>

theorem lifecycle_invariant:
  "(is_active (fst (Subscription_ctor T i c symb w)) \<longleftrightarrow>
      res (create_reply T w c) = DXF_SUCCESS \<and> res (attach_reply T w c i) = DXF_SUCCESS
      \<and> res (add_reply T w c i symb) = DXF_SUCCESS \<and> ptr_out (create_reply T w c) \<noteq> None)
   \<and> (is_active s \<longrightarrow> handle s \<noteq> None)
   \<and> (handle s = None \<longrightarrow>
        fst (run_ops T' ops (s, w')) = s
        \<and> calls_of (added w' (snd (run_ops T' ops (s, w')))) = [])"
proof -
  have a: "is_active (fst (Subscription_ctor T i c symb w)) \<longleftrightarrow>
      res (create_reply T w c) = DXF_SUCCESS \<and> res (attach_reply T w c i) = DXF_SUCCESS
      \<and> res (add_reply T w c i symb) = DXF_SUCCESS \<and> ptr_out (create_reply T w c) \<noteq> None"
    by (cases "res (create_reply T w c)"; cases "res (attach_reply T w c i)";
        cases "res (add_reply T w c i symb)")
       (auto simp add: run_defs reply_defs is_active_def)
  have b: "fst (run_ops T' ops (s, w')) = s
        \<and> calls_of (added w' (snd (run_ops T' ops (s, w')))) = []" if "handle s = None"
    using run_ops_closed [OF that, of T' ops w'] by auto
  from a b show ?thesis by (auto simp add: is_active_def)
qed

theorem lifecycle_invariant_witness:
  "is_active (fst (active_sub T_ok)) \<and> handle (fst (active_sub T_ok)) \<noteq> None
   \<and> handle (fst (Close T_ok (fst (active_sub T_ok)) (snd (active_sub T_ok)))) = None
   \<and> fst (run_ops T_ok [OpClose, OpDispatch DXF_ET_QUOTE main_symbol sample_quote 1 1, OpDestroy, OpClose]
        (Close T_ok (fst (active_sub T_ok)) (snd (active_sub T_ok))))
      = fst (Close T_ok (fst (active_sub T_ok)) (snd (active_sub T_ok)))"
proof -
  have h: "handle (fst (Close T_ok (fst (active_sub T_ok)) (snd (active_sub T_ok)))) = None"
    by (simp add: closed_sub)
  have a: "is_active (fst (active_sub T_ok))"
    by (simp add: active_sub_ok is_active_def)
  from lifecycle_invariant [where s = "fst (active_sub T_ok)"] a
       lifecycle_invariant [where s = "fst (Close T_ok (fst (active_sub T_ok)) (snd (active_sub T_ok)))"
          and T' = T_ok and w' = "snd (Close T_ok (fst (active_sub T_ok)) (snd (active_sub T_ok)))"
          and ops = "[OpClose, OpDispatch DXF_ET_QUOTE main_symbol sample_quote 1 1, OpDestroy, OpClose]"] h
  show ?thesis by simp
qed

text \<open>
  C6 as stated fails: after an allocation that succeeded and an attachment that failed,
  the handle is non-null although setup did not succeed and the subscription is not
  active.
\<close>

theorem lifecycle_invariant_counterexample:
  "res (attach_reply T_attach_fails [] (Some 0) 1) = DXF_FAILURE
   \<and> handle (fst partial_sub) \<noteq> None \<and> \<not> is_active (fst partial_sub)"
  by (simp add: partial_sub_def run_defs reply_defs is_active_def T_defs)

section \<open>The registry\<close>

lemma CloseImpl_removes:
  "\<exists>s' ev. CloseImpl T s w = (s', w @ ev)
     \<and> filter is_remove (calls_of ev) = (if is_active s then [first_step s] else [])"
  by (simp add: run_defs is_active_def first_step_def)

lemma destroy_all_removes:
  "distinct ord \<Longrightarrow> \<forall>i \<in> set ord. i < length subs \<Longrightarrow>
   \<exists>subs' ev. destroy_all T ord subs w = (subs', w @ ev)
     \<and> filter is_remove (calls_of ev) = map first_step (filter is_active (map ((!) subs) ord))"
proof (induction ord arbitrary: subs w)
  case Nil
  then show ?case by simp
next
  case (Cons i ord)
  obtain s' ev where 1: "CloseImpl T (subs ! i) w = (s', w @ ev)"
    and 2: "filter is_remove (calls_of ev) = (if is_active (subs ! i) then [first_step (subs ! i)] else [])"
    using CloseImpl_removes [of T "subs ! i" w] by blast
  have d: "distinct ord" and b: "\<forall>j \<in> set ord. j < length (subs[i := s'])" and ni: "i \<notin> set ord"
    using Cons.prems by auto
  from Cons.IH [OF d b, of "w @ ev"] obtain subs' ev' where
    3: "destroy_all T ord (subs[i := s']) (w @ ev) = (subs', (w @ ev) @ ev')" and
    4: "filter is_remove (calls_of ev') = map first_step (filter is_active (map ((!) (subs[i := s'])) ord))"
    by blast
  have 5: "map ((!) (subs[i := s'])) ord = map ((!) subs) ord"
  proof (rule map_cong [OF refl])
    fix x assume "x \<in> set ord"
    with ni have "i \<noteq> x" by auto
    then show "subs[i := s'] ! x = subs ! x" by simp
  qed
  show ?case
    apply (rule exI [of _ subs'], rule exI [of _ "ev @ ev'"])
    using 1 2 3 4 5 Cons.prems by (simp add: Subscription_dtor_def)
qed

lemma two_subs_eq:
  "fst two_subs = [\<lparr>sub_id = 1, connection = Some 0, symbol = main_symbol, handle = Some 1, errorCode = DXF_SUCCESS\<rparr>,
                   \<lparr>sub_id = 2, connection = Some 0, symbol = main_symbol, handle = Some 4, errorCode = DXF_SUCCESS\<rparr>]"
  by (simp add: two_subs_def run_defs T_defs)

text \<open>
  The facade calls of \<^verbatim>\<open>main\<close> on a transport where every call succeeds: the third
  subscription is torn down by the explicit close, and its destructor then finds
  nothing to do.
\<close>

lemma main_run:
  "calls_of (snd (main T_ok [])) =
     [InitializeLogger, LoadConfig, CreateConnection,
      CreateSubscription (Some 3) DXF_ET_QUOTE, AttachEventListener (Some 4) (Listener 1) 1, AddSymbol (Some 4) main_symbol,
      CreateSubscription (Some 3) DXF_ET_QUOTE, AttachEventListener (Some 7) (Listener 2) 2, AddSymbol (Some 7) main_symbol,
      CreateSubscription (Some 3) DXF_ET_QUOTE, AttachEventListener (Some 10) (Listener 3) 3, AddSymbol (Some 10) main_symbol,
      CreateSubscription (Some 3) DXF_ET_QUOTE, AttachEventListener (Some 13) (Listener 4) 4, AddSymbol (Some 13) main_symbol,
      CreateSubscription (Some 3) DXF_ET_QUOTE, AttachEventListener (Some 16) (Listener 5) 5, AddSymbol (Some 16) main_symbol,
      RemoveSymbol (Some 10) main_symbol, DetachEventListener (Some 10) (Listener 3), CloseSubscription (Some 10),
      RemoveSymbol (Some 4) main_symbol, DetachEventListener (Some 4) (Listener 1), CloseSubscription (Some 4),
      RemoveSymbol (Some 7) main_symbol, DetachEventListener (Some 7) (Listener 2), CloseSubscription (Some 7),
      RemoveSymbol (Some 13) main_symbol, DetachEventListener (Some 13) (Listener 4), CloseSubscription (Some 13),
      RemoveSymbol (Some 16) main_symbol, DetachEventListener (Some 16) (Listener 5), CloseSubscription (Some 16),
      CloseConnection (Some 3)]"
  by (simp add: main_def closeAt_def Close_def Subscription_dtor_def run_defs T_defs getListener_def)

lemma destroy_all_append:
  "destroy_all T (xs @ ys) subs w =
     (case destroy_all T xs subs w of (subs1, w1) \<Rightarrow> destroy_all T ys subs1 w1)"
  by (induction xs arbitrary: subs w) (auto split: prod.splits)

lemma destroy_all_untouched:
  "length (fst (destroy_all T ord subs w)) = length subs
   \<and> (j \<notin> set ord \<longrightarrow> fst (destroy_all T ord subs w) ! j = subs ! j)"
  by (induction ord arbitrary: subs w) (auto split: prod.splits)

lemma destroy_all_step:
  assumes "j < length subs"
  shows "destroy_all T [0..<Suc j] subs w =
     (case CloseImpl T (subs ! j) (snd (destroy_all T [0..<j] subs w)) of (s', w') \<Rightarrow>
        ((fst (destroy_all T [0..<j] subs w))[j := s'], w'))"
proof -
  obtain subs1 w1 where 1: "destroy_all T [0..<j] subs w = (subs1, w1)"
    by (cases "destroy_all T [0..<j] subs w")
  from destroy_all_untouched [of T "[0..<j]" subs w j] 1
  have 2: "length subs1 = length subs" "subs1 ! j = subs ! j" by auto
  have "destroy_all T [0..<Suc j] subs w = destroy_all T [j] subs1 w1"
    using destroy_all_append [of T "[0..<j]" "[j]" subs w] 1 by simp
  with 1 2 assms show ?thesis by (simp add: Subscription_dtor_def split: prod.splits)
qed

lemma destroy_all_entry:
  assumes "j < length subs"
  shows "fst (destroy_all T [0..<length subs] subs w) ! j
           = fst (CloseImpl T (subs ! j) (snd (destroy_all T [0..<j] subs w)))"
proof -
  obtain subs2 w2 where 2: "destroy_all T [0..<Suc j] subs w = (subs2, w2)"
    by (cases "destroy_all T [0..<Suc j] subs w")
  have l: "length (fst (destroy_all T [0..<j] subs w)) = length subs"
    using destroy_all_untouched [of T "[0..<j]" subs w] by simp
  have 3: "subs2 ! j = fst (CloseImpl T (subs ! j) (snd (destroy_all T [0..<j] subs w)))"
    using destroy_all_step [OF assms, of T w] 2 l assms by (auto split: prod.splits)
  have "[0..<length subs] = [0..<Suc j] @ [Suc j..<length subs]"
    using assms by (metis Suc_leI le0 upt_add_eq_append le_add_diff_inverse)
  then have "destroy_all T [0..<length subs] subs w = destroy_all T [Suc j..<length subs] subs2 w2"
    using destroy_all_append [of T "[0..<Suc j]" "[Suc j..<length subs]" subs w] 2 by simp
  moreover have "fst (destroy_all T [Suc j..<length subs] subs2 w2) ! j = subs2 ! j"
    using destroy_all_untouched [of T "[Suc j..<length subs]" subs2 w2 j] by simp
  ultimately show ?thesis using 3 by simp
qed

lemma CloseImpl_calls:
  "set (calls_of (added w (snd (CloseImpl T s w)))) \<subseteq> set (teardown_calls s)"
  by (simp add: run_defs teardown_calls_def)

lemma Close_calls:
  "set (calls_of (added w (snd (Close T s w)))) \<subseteq> set (teardown_calls s)"
proof -
  obtain s' ev where 1: "CloseImpl T s (w @ [Acquire (SubMutex (sub_id s))])
      = (s', (w @ [Acquire (SubMutex (sub_id s))]) @ ev)"
    using CloseImpl_extends by blast
  have "added (w @ [Acquire (SubMutex (sub_id s))])
          (snd (CloseImpl T s (w @ [Acquire (SubMutex (sub_id s))]))) = ev"
    unfolding 1 by (simp only: snd_conv added_append)
  with CloseImpl_calls [of "w @ [Acquire (SubMutex (sub_id s))]" T s]
  have "set (calls_of ev) \<subseteq> set (teardown_calls s)" by (simp only:)
  then show ?thesis by (simp add: Close_def 1)
qed



section \<open>Closing more than once\<close>

text \<open>
  A close of an active subscription leaves it inactive, so that every later close does
  nothing, unless the removal succeeded and the detachment failed.
\<close>

lemma close_reenters_only_after_failed_detach:
  "is_active s \<Longrightarrow>
   \<not> (res (remove_reply T w s) = DXF_SUCCESS \<and> res (detach_reply T w s) = DXF_FAILURE) \<Longrightarrow>
   \<not> is_active (fst (CloseImpl T s w))"
  by (cases "res (remove_reply T w s)"; cases "res (detach_reply T w s)")
     (auto simp add: run_defs reply_defs is_active_def)

text \<open>
  C1 at a transport whose detach call fails. The result of the detachment is kept in a
  local variable and not in the error state, so the subscription is still active
  after the first close, and the second close removes the symbol and detaches the
  listener a second time.
\<close>

theorem close_twice_after_failed_detach:
  "is_active (fst (active_sub T_detach_fails))
   \<and> calls_of (added (snd (active_sub T_detach_fails))
       (snd (Close T_detach_fails
              (fst (Close T_detach_fails (fst (active_sub T_detach_fails)) (snd (active_sub T_detach_fails))))
              (snd (Close T_detach_fails (fst (active_sub T_detach_fails)) (snd (active_sub T_detach_fails)))))))
     = [RemoveSymbol (Some 1) main_symbol, DetachEventListener (Some 1) (Listener 1), GetLastError,
        RemoveSymbol (Some 1) main_symbol, DetachEventListener (Some 1) (Listener 1), GetLastError]
   \<and> is_active (fst (Close T_detach_fails (fst (active_sub T_detach_fails)) (snd (active_sub T_detach_fails))))"
  by (simp add: active_sub_def Close_def run_defs T_defs getListener_def is_active_def added_def)

end
